theory Spec2Isabelle
  imports Main "HOL-Library.Sublist"
begin

section \<open>JavaScript strings\<close>

text \<open>
  The server of the note taking application (the Express part of \<^verbatim>\<open>App.js\<close>) works on
  JavaScript strings. A string is modelled as the list of its code units, and the model
  covers the code units below 256 (ASCII and Latin-1), which is the range of \<^typ>\<open>char\<close>.
  All keywords, labels and synonyms of the program are ASCII.
\<close>

definition substring :: "string \<Rightarrow> nat \<Rightarrow> nat \<Rightarrow> string" where
  \<comment> \<open>\<^verbatim>\<open>s.substring(i, j)\<close>: the arguments are swapped when \<^verbatim>\<open>i > j\<close>, and clamped to the length.\<close>
  "substring s i j = take (max i j - min i j) (drop (min i j) s)"

fun includes_js :: "string \<Rightarrow> string \<Rightarrow> bool" where
  \<comment> \<open>\<^verbatim>\<open>s.includes(kw)\<close>: \<^verbatim>\<open>kw\<close> occurs in \<^verbatim>\<open>s\<close> as a contiguous substring, case-sensitively.\<close>
  "includes_js [] kw = (kw = [])"
| "includes_js (c # cs) kw = (prefix kw (c # cs) \<or> includes_js cs kw)"

definition isWhiteSpace :: "char \<Rightarrow> bool" where
  \<comment> \<open>What \<^verbatim>\<open>trim()\<close> strips: TAB, LF, VT, FF, CR, SPACE and NBSP.\<close>
  "isWhiteSpace c = (c \<in> set [CHR 0x09, CHR 0x0A, CHR 0x0B, CHR 0x0C, CHR 0x0D, CHR 0x20, CHR 0xA0])"

definition trim :: "string \<Rightarrow> string" where
  "trim s = rev (dropWhile isWhiteSpace (rev (dropWhile isWhiteSpace s)))"

definition splitFirst :: "char \<Rightarrow> string \<Rightarrow> string" where
  \<comment> \<open>\<^verbatim>\<open>s.split(sep)[0]\<close> for a separator of one character.\<close>
  "splitFirst sep s = takeWhile (\<lambda>c. c \<noteq> sep) s"

definition lowerChar :: "char \<Rightarrow> char" where
  \<comment> \<open>Lower-casing of one code unit: \<^verbatim>\<open>A\<close>..\<^verbatim>\<open>Z\<close>, and the capital letters of Latin-1
      (0xC0..0xDE without the multiplication sign 0xD7).\<close>
  "lowerChar c =
     (let n = (of_char c :: nat)
      in if (65 \<le> n \<and> n \<le> 90) \<or> (192 \<le> n \<and> n \<le> 222 \<and> n \<noteq> 215)
         then char_of (n + 32) else c)"

definition toLowerCase :: "string \<Rightarrow> string" where
  "toLowerCase s = map lowerChar s"

section \<open>The static tables of \<^verbatim>\<open>detectSubject\<close>\<close>

definition allowedSubjects :: "string list" where
  "allowedSubjects =
    [''Mathematics'', ''Physics'', ''Chemistry'', ''Biology'', ''Programming'',
     ''Computer Science'', ''History'', ''Geography'', ''Literature'', ''Language'',
     ''Art'', ''Music'', ''Sports'', ''Entertainment'', ''General'']"

definition synonyms :: "(string \<times> string) list" where
  \<comment> \<open>The object literal in its declaration order, which is the order of \<^verbatim>\<open>Object.entries\<close>.\<close>
  "synonyms =
    [(''computer science'', ''Computer Science''),
     (''cs'', ''Computer Science''),
     (''coding'', ''Programming''),
     (''programming'', ''Programming''),
     (''program'', ''Programming''),
     (''math'', ''Mathematics''),
     (''mathematics'', ''Mathematics''),
     (''physics'', ''Physics''),
     (''chemistry'', ''Chemistry''),
     (''biology'', ''Biology''),
     (''history'', ''History''),
     (''geography'', ''Geography''),
     (''literature'', ''Literature''),
     (''language'', ''Language''),
     (''linguistics'', ''Language''),
     (''art'', ''Art''),
     (''music'', ''Music''),
     (''sports'', ''Sports''),
     (''entertainment'', ''Entertainment''),
     (''general'', ''General'')]"

definition keywordMap :: "(string \<times> string list) list" where
  \<comment> \<open>Subject and keyword list, in declaration order.\<close>
  "keywordMap =
  [(''Mathematics'',
    [''integral'', ''derivative'', ''algebra'', ''calculus'', ''theorem'', ''matrix'',
     ''probability'', ''geometry'', ''trigonometry'', ''statistics'',
     ''differential equations'', ''vector'', ''tensor'', ''limit'', ''set theory'',
     ''number theory'', ''topology'', ''combinatorics'', ''prime'', ''logarithm'',
     ''exponential'', ''polynomial'', ''inequality'', ''function'', ''graph theory'',
     ''optimization'', ''linear algebra'', ''stochastic'', ''random variable'', ''bayesian'',
     ''euclidean'', ''non-euclidean'', ''metric'', ''proof'', ''axiom'', ''lemma'',
     ''corollary'', ''sequence'', ''series'', ''p-adic'', ''symmetry'', ''group theory'',
     ''ring'', ''field'', ''manifold'', ''integrable'', ''partial derivative'', ''gradient'',
     ''divergence'', ''curl'']),
   (''Physics'',
    [''velocity'', ''force'', ''quantum'', ''relativity'', ''particle'', ''energy'',
     ''momentum'', ''thermodynamics'', ''optics'', ''mass'', ''acceleration'', ''friction'',
     ''gravity'', ''electromagnetism'', ''wave'', ''frequency'', ''amplitude'', ''spin'',
     ''string theory'', ''boson'', ''fermion'', ''neutrino'', ''photon'', ''entropy'',
     ''enthalpy'', ''pressure'', ''fluid dynamics'', ''nuclear'', ''atomic'', ''collision'',
     ''radiation'', ''magnetism'', ''capacitance'', ''resistance'', ''superconductivity'',
     ''black hole'', ''cosmology'', ''astrophysics'', ''inertia'', ''scalar'', ''vector'',
     ''field'', ''higgs'', ''dark matter'', ''dark energy'', ''interference'', ''diffraction'',
     ''relativistic'']),
   (''Chemistry'',
    [''molecule'', ''reaction'', ''chemical'', ''atom'', ''bond'', ''ph'', ''acid'',
     ''oxidation'', ''synthesis'', ''catalyst'', ''organic'', ''inorganic'', ''covalent'',
     ''ionic'', ''solution'', ''solvent'', ''solute'', ''concentration'', ''stoichiometry'',
     ''thermochemistry'', ''enthalpy'', ''electrons'', ''orbitals'', ''periodic table'',
     ''isotope'', ''polymer'', ''crystal'', ''precipitate'', ''titration'', ''spectroscopy'',
     ''chromatography'', ''equilibrium'', ''buffer'', ''alkaline'', ''halogen'',
     ''transition metal'', ''electrochemistry'', ''redox'', ''molarity'', ''kinetics'',
     ''enthalpy'', ''hydrocarbon'', ''ester'', ''amine'']),
   (''Biology'',
    [''cell'', ''organism'', ''evolution'', ''dna'', ''protein'', ''genome'',
     ''photosynthesis'', ''mitosis'', ''meiosis'', ''enzyme'', ''chromosome'', ''ribosome'',
     ''mutation'', ''gene'', ''genetics'', ''epigenetics'', ''ecosystem'', ''bacteria'',
     ''virus'', ''fungi'', ''microbe'', ''adaptation'', ''natural selection'', ''anatomy'',
     ''physiology'', ''immune system'', ''respiration'', ''metabolism'', ''hormone'', ''organ'',
     ''species'', ''taxonomy'', ''reproduction'', ''biosphere'', ''ecology'', ''biome'',
     ''cloning'', ''biotechnology'', ''neuron'', ''synapse'', ''membrane'', ''cytoplasm'',
     ''mitochondria'', ''chloroplast'']),
   (''Programming'',
    [''function'', ''variable'', ''loop'', ''algorithm'', ''code'', ''compile'', ''runtime'',
     ''bug'', ''debug'', ''class'', ''object'', ''inheritance'', ''polymorphism'',
     ''interface'', ''recursion'', ''pointer'', ''array'', ''list'', ''dictionary'',
     ''hashmap'', ''framework'', ''library'', ''module'', ''package'', ''thread'',
     ''concurrency'', ''parallel'', ''asynchronous'', ''promise'', ''exception'', ''error'',
     ''syntax'', ''interpreter'', ''compiler'', ''optimization'', ''API'', ''REST'', ''JSON'',
     ''XML'', ''version control'', ''git'', ''regex'', ''IDE'', ''container'',
     ''virtual machine'']),
   (''Computer Science'',
    [''computer'', ''algorithm'', ''data structure'', ''database'', ''machine learning'',
     ''computing'', ''cpu'', ''gpu'', ''compiler theory'', ''operating system'', ''network'',
     ''protocol'', ''distributed system'', ''cloud'', ''virtualization'', ''encryption'',
     ''cryptography'', ''complexity'', ''big o'', ''neural network'', ''ai'', ''deep learning'',
     ''nlp'', ''data mining'', ''information theory'', ''storage'', ''cache'', ''parallelism'',
     ''graph'', ''tree'', ''binary'', ''hashing'', ''blockchain'', ''cybersecurity'',
     ''quantum computing'', ''software engineering'', ''microarchitecture'']),
   (''History'',
    [''war'', ''empire'', ''revolution'', ''histor'', ''ancient'', ''medieval'', ''colonial'',
     ''civilization'', ''dynasty'', ''treaty'', ''monarchy'', ''republic'', ''conquest'',
     ''military'', ''battle'', ''renaissance'', ''industrial'', ''cold war'', ''world war'',
     ''enlightenment'', ''pharaoh'', ''archaeology'', ''imperialism'', ''feudalism'',
     ''constitution'', ''reform'', ''rebellion'', ''independence'', ''exploration'',
     ''migration'', ''cultural heritage'', ''chronicle'', ''historic event'']),
   (''Geography'',
    [''continent'', ''country'', ''climate'', ''mountain'', ''river'', ''latitude'',
     ''longitude'', ''topography'', ''desert'', ''ocean'', ''island'', ''plate tectonics'',
     ''weather'', ''region'', ''urban'', ''rural'', ''population'', ''ecosystem'',
     ''rainforest'', ''volcano'', ''earthquake'', ''map'', ''cartography'', ''habitat'',
     ''biome'', ''altitude'', ''sea level'', ''landform'', ''delta'', ''canyon'', ''valley'',
     ''glacier'']),
   (''Literature'',
    [''novel'', ''poem'', ''poetry'', ''literature'', ''character'', ''narrative'', ''prose'',
     ''metaphor'', ''allegory'', ''symbolism'', ''theme'', ''plot'', ''drama'', ''tragedy'',
     ''comedy'', ''author'', ''genre'', ''fiction'', ''nonfiction'', ''myth'', ''legend'',
     ''epic'', ''short story'', ''rhetoric'', ''dialogue'', ''narrator'', ''memoir'',
     ''biography'', ''autobiography'', ''manuscript'', ''allusion'', ''satire'', ''imagery'']),
   (''Language'',
    [''grammar'', ''vocabulary'', ''sentence'', ''syntax'', ''linguistics'', ''translation'',
     ''phonetics'', ''phonology'', ''morphology'', ''semantics'', ''pragmatics'', ''dialect'',
     ''accent'', ''lexicon'', ''conjugation'', ''declension'', ''orthography'',
     ''writing system'', ''etymology'', ''discourse'', ''phrase'', ''idiom'', ''bilingual'',
     ''multilingual'', ''pronunciation'']),
   (''Art'',
    [''painting'', ''sculpture'', ''canvas'', ''gallery'', ''museum'', ''visual'',
     ''aesthetics'', ''portrait'', ''landscape'', ''abstract'', ''expressionism'', ''realism'',
     ''surrealism'', ''impressionism'', ''installation'', ''performance art'', ''fine art'',
     ''brushstroke'', ''composition'', ''color theory'', ''perspective'', ''illustration'',
     ''sketch'', ''modern art'', ''contemporary art'', ''exhibit'']),
   (''Music'',
    [''melody'', ''harmony'', ''rhythm'', ''instrument'', ''composer'', ''song'', ''audio'',
     ''pitch'', ''tempo'', ''tone'', ''timbre'', ''scale'', ''chord'', ''genre'', ''orchestra'',
     ''symphony'', ''opera'', ''choir'', ''band'', ''beat'', ''lyrics'', ''arrangement'',
     ''composition'', ''improvisation'', ''acoustic'', ''electronic'', ''soundtrack'',
     ''mixing'', ''recording'', ''notation'', ''conductor'', ''performance'']),
   (''Sports'',
    [''tournament'', ''score'', ''player'', ''match'', ''athlete'', ''game'', ''league'',
     ''championship'', ''coach'', ''training'', ''stadium'', ''team'', ''referee'', ''offense'',
     ''defense'', ''tactics'', ''strategy'', ''injury'', ''endurance'', ''competition'',
     ''sportsmanship'', ''record'', ''ranking'', ''event'', ''marathon'', ''sprint'', ''ball'',
     ''equipment'', ''playoff'', ''fitness'']),
   (''Entertainment'',
    [''movie'', ''film'', ''television'', ''celebrity'', ''show'', ''entertainment'',
     ''series'', ''episode'', ''director'', ''actor'', ''actress'', ''script'', ''screenplay'',
     ''animation'', ''cartoon'', ''streaming'', ''documentary'', ''thriller'', ''comedy'',
     ''drama'', ''action'', ''cinema'', ''franchise'', ''soundtrack'', ''visual effects'',
     ''special effects'', ''broadcast'', ''media'', ''trailer''])]"

section \<open>The pure steps of \<^verbatim>\<open>detectSubject\<close>\<close>

definition normalizeDetected :: "string \<Rightarrow> string option" where
  \<comment> \<open>\<^verbatim>\<open>null\<close> for an empty response; otherwise the double quotes are removed, then the
      first line up to its first period is kept and trimmed. The typographic quotes that
      the program also removes lie outside the code units of the model.\<close>
  "normalizeDetected raw =
     (if raw = [] then None
      else Some (trim (splitFirst (CHR ''.'') (splitFirst (CHR 0x0A)
                   (trim (filter (\<lambda>c. c \<noteq> CHR 0x22) raw))))))"

definition scores :: "string \<Rightarrow> (string \<times> nat) list" where
  \<comment> \<open>The object \<^verbatim>\<open>scores\<close>, as the list of its entries in insertion order.\<close>
  "scores textLower =
     map (\<lambda>(subject, keywords).
            (subject, length (filter (\<lambda>kw. kw \<noteq> [] \<and> includes_js textLower kw) keywords)))
         keywordMap"

definition sortedScores :: "string \<Rightarrow> (string \<times> nat) list" where
  \<comment> \<open>\<^verbatim>\<open>Object.entries(scores).sort((a,b) => b[1]-a[1])\<close>: larger scores first; the sort
      of an array is stable (ECMAScript 2019).\<close>
  "sortedScores textLower = sort_key (\<lambda>e. - int (snd e)) (scores textLower)"

definition heuristicSubject :: "string \<Rightarrow> string option" where
  \<comment> \<open>\<^verbatim>\<open>(sortedScores[0] || [null, 0])[0]\<close>; \<open>None\<close> is \<^verbatim>\<open>null\<close>.\<close>
  "heuristicSubject textLower =
     (case sortedScores textLower of [] \<Rightarrow> None | best # _ \<Rightarrow> Some (fst best))"

definition heuristicScore :: "string \<Rightarrow> nat" where
  "heuristicScore textLower =
     (case sortedScores textLower of [] \<Rightarrow> 0 | best # _ \<Rightarrow> snd best)"

definition modelMapped :: "string option \<Rightarrow> string option" where
  \<comment> \<open>The three normalisation steps of the model's answer, the first match winning.\<close>
  "modelMapped cleaned =
     (case cleaned of
        None \<Rightarrow> None
      | Some c \<Rightarrow>
          if c = [] then None
          else (case find (\<lambda>s. toLowerCase s = toLowerCase c) allowedSubjects of
                  Some exact \<Rightarrow> Some exact
                | None \<Rightarrow>
                    (case find (\<lambda>s. includes_js (toLowerCase c) (toLowerCase s)) allowedSubjects of
                       Some contains \<Rightarrow> Some contains
                     | None \<Rightarrow>
                         (case find (\<lambda>(k, v). includes_js (toLowerCase c) k) synonyms of
                            Some (k, v) \<Rightarrow> Some v
                          | None \<Rightarrow> None))))"

definition modelScore :: "string \<Rightarrow> string \<Rightarrow> nat" where
  \<comment> \<open>\<^verbatim>\<open>scores[modelMapped] || 0\<close>\<close>
  "modelScore textLower m = (case map_of (scores textLower) m of Some n \<Rightarrow> n | None \<Rightarrow> 0)"

definition decision :: "string \<Rightarrow> string option \<Rightarrow> string option" where
  \<comment> \<open>The decision logic at the end of the \<^verbatim>\<open>try\<close> block, from the lower-cased text and
      the cleaned answer of the model.\<close>
  "decision textLower cleaned =
     (case modelMapped cleaned of
        Some m \<Rightarrow>
          if heuristicScore textLower \<ge> 2 \<and> heuristicSubject textLower \<noteq> Some m
             \<and> heuristicScore textLower > modelScore textLower m
          then heuristicSubject textLower
          else Some m
      | None \<Rightarrow>
          if heuristicScore textLower > 0 then heuristicSubject textLower
          else Some ''General'')"

section \<open>The external service and the requests sent to it\<close>

text \<open>
  \<^verbatim>\<open>model.generateContent\<close> is an external call: its answer is not determined by the
  program. It is a parameter of the model, a function from the request and the state of
  the outside world to a reply and the next state. The session also records every
  request that was sent, in order.

  A request stands for the prompt built from a fixed template: it keeps the values that
  are interpolated into the template. A reply is one of: a rejection with an \<^verbatim>\<open>Error\<close>
  (its message is kept); a response with a text; a response whose \<^verbatim>\<open>response.text()\<close>
  throws an \<^verbatim>\<open>Error\<close>, as the client library does for a blocked response; a response
  that has no function \<^verbatim>\<open>response.text\<close>. Writing to the console is not modelled.
\<close>

record upload =
  originalname :: string
  mimetype :: string
  buffer :: string

datatype content = TextContent string | FileContent upload

datatype prompt =
    TextNotesPrompt "string option" string string
  | AudioFilePrompt string string
  | TranscriptNotesPrompt "string option" string string

datatype request =
    LanguageRequest string
  | SubjectRequest string
  | NotesRequest prompt "upload option"
  | CorrectionRequest string string

datatype reply =
    Rejects string
  | Responds string
  | TextThrows string
  | NoText

datatype js_error = Rejected string | Thrown string | TypeError

type_synonym 'w service = "request \<Rightarrow> 'w \<Rightarrow> reply \<times> 'w"

record 'w session =
  world :: 'w
  calls :: "request list"

definition generateContent :: "'w service \<Rightarrow> request \<Rightarrow> 'w session \<Rightarrow> reply \<times> 'w session" where
  "generateContent svc rq s =
     (case svc rq (world s) of
        (r, w) \<Rightarrow> (r, \<lparr>world = w, calls = calls s @ [rq]\<rparr>))"

section \<open>\<^verbatim>\<open>detectLanguage\<close>\<close>

definition detectLanguage_try :: "'w service \<Rightarrow> content \<Rightarrow> 'w session \<Rightarrow> (js_error + string) \<times> 'w session" where
  \<comment> \<open>The \<^verbatim>\<open>try\<close> block. An uploaded file has no \<^verbatim>\<open>substring\<close>, so building the request
      already throws; \<^verbatim>\<open>response.text()\<close> may throw, and is not a function when missing.\<close>
  "detectLanguage_try svc text s =
     (case text of
        FileContent f \<Rightarrow> (Inl TypeError, s)
      | TextContent t \<Rightarrow>
          (case generateContent svc (LanguageRequest (substring t 0 500)) s of
             (Rejects e, s') \<Rightarrow> (Inl (Rejected e), s')
           | (TextThrows e, s') \<Rightarrow> (Inl (Thrown e), s')
           | (NoText, s') \<Rightarrow> (Inl TypeError, s')
           | (Responds r, s') \<Rightarrow>
               (Inr (trim (splitFirst (CHR ''.'') (splitFirst (CHR 0x0A) (trim r)))), s')))"

definition detectLanguage :: "'w service \<Rightarrow> content \<Rightarrow> 'w session \<Rightarrow> string \<times> 'w session" where
  \<comment> \<open>The \<^verbatim>\<open>catch\<close> block turns every error into \<^verbatim>\<open>"unknown"\<close>.\<close>
  "detectLanguage svc text s =
     (case detectLanguage_try svc text s of
        (Inl e, s') \<Rightarrow> (''unknown'', s')
      | (Inr cleanLang, s') \<Rightarrow> (cleanLang, s'))"

section \<open>\<^verbatim>\<open>detectSubject\<close>\<close>

definition snippet :: "content \<Rightarrow> string" where
  \<comment> \<open>\<^verbatim>\<open>(text && text.length > 0) ? text.substring(0, 2000) : ""\<close>; a file object has no length.\<close>
  "snippet text =
     (case text of
        TextContent t \<Rightarrow> if length t > 0 then substring t 0 2000 else []
      | FileContent f \<Rightarrow> [])"

definition raw :: "reply \<Rightarrow> string" where
  \<comment> \<open>\<^verbatim>\<open>subjectResult && subjectResult.response && subjectResult.response.text ?
      subjectResult.response.text().trim() : ""\<close>, for a reply whose text can be read or
      that has no function \<^verbatim>\<open>text\<close>.\<close>
  "raw r = (case r of Responds t \<Rightarrow> trim t | _ \<Rightarrow> [])"

definition detectSubject_try :: "'w service \<Rightarrow> content \<Rightarrow> 'w session \<Rightarrow> (js_error + string option) \<times> 'w session" where
  \<comment> \<open>The \<^verbatim>\<open>try\<close> block. The result \<open>None\<close> is \<^verbatim>\<open>null\<close>. The call may reject and
      \<^verbatim>\<open>response.text()\<close> may throw, both before any vote; for a file object
      \<^verbatim>\<open>(text || "").toLowerCase()\<close> throws, after the call has been made.\<close>
  "detectSubject_try svc text s =
     (case generateContent svc (SubjectRequest (snippet text)) s of
        (Rejects e, s') \<Rightarrow> (Inl (Rejected e), s')
      | (TextThrows e, s') \<Rightarrow> (Inl (Thrown e), s')
      | (r, s') \<Rightarrow>
          (let cleaned = normalizeDetected (raw r)
           in case text of
                FileContent f \<Rightarrow> (Inl TypeError, s')
              | TextContent t \<Rightarrow> (Inr (decision (toLowerCase t) cleaned), s')))"

definition detectSubject :: "'w service \<Rightarrow> content \<Rightarrow> 'w session \<Rightarrow> string option \<times> 'w session" where
  \<comment> \<open>The \<^verbatim>\<open>catch\<close> block turns every error into \<^verbatim>\<open>"General"\<close>.\<close>
  "detectSubject svc text s =
     (case detectSubject_try svc text s of
        (Inl e, s') \<Rightarrow> (Some ''General'', s')
      | (Inr subject, s') \<Rightarrow> (subject, s'))"

section \<open>The handler of \<^verbatim>\<open>POST /generate-notes\<close>\<close>

text \<open>
  The handler is modelled from the point where \<^verbatim>\<open>type\<close> and \<^verbatim>\<open>content\<close> have been read
  from the form: \<^verbatim>\<open>content\<close> is the text field, the text of an uploaded text file, or
  an uploaded audio file. The database is a parameter: it is not connected, or
  \<^verbatim>\<open>saveNotes\<close> throws, or it stores the note under an id. A successful answer carries
  the fields of the note and the id of the stored note, if any.
\<close>

record detected =
  userPrompt :: prompt
  audioFile :: "upload option"
  detectedLanguage :: string
  detectedSubject :: "string option"

definition toString :: "content \<Rightarrow> string" where
  \<comment> \<open>The template literal \<^verbatim>\<open>${content}\<close>.\<close>
  "toString c = (case c of TextContent t \<Rightarrow> t | FileContent f \<Rightarrow> ''[object Object]'')"

definition retryCondition :: "string \<Rightarrow> bool" where
  "retryCondition l = (l = ''unknown'' \<or> includes_js l ''English'' \<or> includes_js l ''##'')"

definition textBranch :: "'w service \<Rightarrow> content \<Rightarrow> 'w session \<Rightarrow> detected \<times> 'w session" where
  \<comment> \<open>\<^verbatim>\<open>type === "text"\<close>\<close>
  "textBranch svc c s =
     (let (l1, s1) = detectLanguage svc c s;
          (subj, s2) = detectSubject svc c s1;
          (l, s3) = (if retryCondition l1 then detectLanguage svc c s2 else (l1, s2))
      in (\<lparr>userPrompt = TextNotesPrompt subj l (toString c), audioFile = None,
           detectedLanguage = l, detectedSubject = subj\<rparr>, s3))"

definition audioBranch :: "'w service \<Rightarrow> content \<Rightarrow> 'w session \<Rightarrow> detected \<times> 'w session" where
  \<comment> \<open>\<^verbatim>\<open>type === "audio"\<close>: an uploaded file, or a transcript given as text.\<close>
  "audioBranch svc c s =
     (case c of
        FileContent f \<Rightarrow>
          (\<lparr>userPrompt = AudioFilePrompt (originalname f) (mimetype f), audioFile = Some f,
            detectedLanguage = ''unknown'', detectedSubject = Some ''General''\<rparr>, s)
      | TextContent t \<Rightarrow>
          (let (l, s1) = detectLanguage svc c s;
               (subj, s2) = detectSubject svc c s1
           in (\<lparr>userPrompt = TranscriptNotesPrompt subj l t, audioFile = None,
                detectedLanguage = l, detectedSubject = subj\<rparr>, s2)))"

definition targetLanguage :: "string \<Rightarrow> string" where
  \<comment> \<open>\<^verbatim>\<open>(detectedLanguage && detectedLanguage !== "unknown") ? detectedLanguage : 'English'\<close>\<close>
  "targetLanguage l = (if l \<noteq> [] \<and> l \<noteq> ''unknown'' then l else ''English'')"

record noteData =
  input_type :: string
  generated_notes :: string
  detected_language :: string
  detected_subject :: "string option"
  original_content :: string

datatype database = NotConnected | SaveFails | Saves string

datatype response =
    MissingTypeOrContent
  | InvalidInputType
  | ServerError
  | Success noteData "string option"

definition validate :: "'w service \<Rightarrow> string \<Rightarrow> string \<Rightarrow> 'w session \<Rightarrow> string \<times> 'w session" where
  \<comment> \<open>The language correction pass; on any error (a rejected call, a text that cannot be
      read) the notes are kept as they are.\<close>
  "validate svc target generatedNotes s =
     (case generateContent svc (CorrectionRequest target generatedNotes) s of
        (Responds validatedNotes, s') \<Rightarrow>
          (if validatedNotes \<noteq> [] \<and> trim validatedNotes \<noteq> [] then trim validatedNotes
           else generatedNotes, s')
      | (_, s') \<Rightarrow> (generatedNotes, s'))"

definition originalContent :: "content \<Rightarrow> string" where
  "originalContent c =
     (case c of
        TextContent t \<Rightarrow> t
      | FileContent f \<Rightarrow> if originalname f \<noteq> [] then originalname f else ''audio_file'')"

definition finish :: "'w service \<Rightarrow> database \<Rightarrow> string \<Rightarrow> content \<Rightarrow> detected \<Rightarrow> 'w session
    \<Rightarrow> (response \<times> noteData option) \<times> 'w session" where
  \<comment> \<open>From the generation call to the response. The second component of the result is
      the record that was stored, if one was. Any error of the generation call or of
      reading its text reaches the outer \<^verbatim>\<open>catch\<close>, which answers with status 500.\<close>
  "finish svc db type c d s =
     (case generateContent svc (NotesRequest (userPrompt d) (audioFile d)) s of
        (Responds notes, s1) \<Rightarrow>
          (let target = targetLanguage (detectedLanguage d);
               (generatedNotes, s2) = validate svc target notes s1;
               note = \<lparr>input_type = type, generated_notes = generatedNotes,
                       detected_language = target, detected_subject = detectedSubject d,
                       original_content = originalContent c\<rparr>
           in case db of
                Saves note_id \<Rightarrow> ((Success note (Some note_id), Some note), s2)
              | SaveFails \<Rightarrow> ((Success note None, None), s2)
              | NotConnected \<Rightarrow> ((Success note None, None), s2))
      | (_, s1) \<Rightarrow> ((ServerError, None), s1))"

definition generateNotes :: "'w service \<Rightarrow> database \<Rightarrow> string option \<Rightarrow> content option \<Rightarrow> 'w session
    \<Rightarrow> (response \<times> noteData option) \<times> 'w session" where
  \<comment> \<open>The handler, from the check of the form on. \<open>None\<close> is a missing form field.\<close>
  "generateNotes svc db type content s =
     (case (type, content) of
        (Some ty, Some c) \<Rightarrow>
          if ty = [] \<or> c = TextContent [] then
            ((MissingTypeOrContent, None), s)
          else if ty = ''text'' then
            (case textBranch svc c s of (d, s') \<Rightarrow> finish svc db ty c d s')
          else if ty = ''audio'' then
            (case audioBranch svc c s of (d, s') \<Rightarrow> finish svc db ty c d s')
          else ((InvalidInputType, None), s)
      | _ \<Rightarrow> ((MissingTypeOrContent, None), s))"

section \<open>A scripted service\<close>

definition scripted :: "reply list service" where
  \<comment> \<open>A stand-in for the external service that answers from a list of prepared replies,
      whatever the request, and rejects once the list is used up.\<close>
  "scripted rq w = (case w of [] \<Rightarrow> (Rejects ''no reply'', []) | r # rs \<Rightarrow> (r, rs))"

definition script :: "reply list \<Rightarrow> reply list session" where
  "script rs = \<lparr>world = rs, calls = []\<rparr>"

section \<open>Observations on a run\<close>

definition languageRequests :: "request list \<Rightarrow> request list" where
  \<comment> \<open>The language detection requests among the requests sent.\<close>
  "languageRequests rqs = filter (\<lambda>rq. case rq of LanguageRequest x \<Rightarrow> True | _ \<Rightarrow> False) rqs"

definition spec_score :: "string \<Rightarrow> string \<Rightarrow> nat" where
  \<comment> \<open>The heuristic score in the words of the specification, for comparison with
      \<^const>\<open>scores\<close>: the number of keywords of the subject that occur in the text as
      substrings, case-insensitively.\<close>
  "spec_score text subject =
     (case map_of keywordMap subject of
        None \<Rightarrow> 0
      | Some keywords \<Rightarrow>
          length (filter (\<lambda>kw. includes_js (toLowerCase text) (toLowerCase kw)) keywords))"

section \<open>The result of \<^verbatim>\<open>detectSubject\<close> is a label of the taxonomy\<close>

lemma keywordMap_keys: "map fst keywordMap = butlast allowedSubjects"
  by (simp add: keywordMap_def allowedSubjects_def)

lemma scores_keys: "map fst (scores textLower) = map fst keywordMap"
  by (simp add: scores_def case_prod_beta comp_def)

lemma sortedScores_set: "set (sortedScores textLower) = set (scores textLower)"
  by (simp add: sortedScores_def)

lemma keywordMap_length: "length keywordMap = 14"
  by (simp add: keywordMap_def)

lemma sortedScores_length: "length (sortedScores textLower) = 14"
  using keywordMap_length by (simp add: sortedScores_def scores_def)

lemma heuristicSubject_key:
  "\<exists>h. heuristicSubject textLower = Some h \<and> h \<in> set (butlast allowedSubjects)"
proof (cases "sortedScores textLower")
  case Nil
  then show ?thesis using sortedScores_length [of textLower] by simp
next
  case (Cons best rest)
  then have "best \<in> set (scores textLower)"
    using sortedScores_set [of textLower] by auto
  then have "fst best \<in> set (map fst (scores textLower))" by (metis image_eqI set_map)
  then have "fst best \<in> set (butlast allowedSubjects)"
    by (simp only: scores_keys keywordMap_keys)
  with Cons show ?thesis by (simp add: heuristicSubject_def)
qed

lemma synonyms_values: "snd ` set synonyms \<subseteq> set allowedSubjects"
  by (simp add: synonyms_def allowedSubjects_def)

lemma modelMapped_allowed:
  assumes "modelMapped cleaned = Some m"
  shows "m \<in> set allowedSubjects"
proof -
  have a: "find P allowedSubjects = Some x \<Longrightarrow> x \<in> set allowedSubjects" for P x
    by (auto simp: find_Some_iff)
  have b: "find P synonyms = Some (k, v) \<Longrightarrow> v \<in> set allowedSubjects" for P k v
  proof -
    assume "find P synonyms = Some (k, v)"
    then have "(k, v) \<in> set synonyms" by (auto simp: find_Some_iff)
    then have "snd (k, v) \<in> snd ` set synonyms" by (rule imageI)
    with synonyms_values show ?thesis by auto
  qed
  from assms show ?thesis
    by (auto simp: modelMapped_def split: option.splits if_splits prod.splits dest: a b)
qed

lemma butlast_allowed: "set (butlast allowedSubjects) \<subseteq> set allowedSubjects"
  by (meson in_set_butlastD subsetI)

lemma decision_allowed: "\<exists>l \<in> set allowedSubjects. decision textLower cleaned = Some l"
proof -
  obtain h where h: "heuristicSubject textLower = Some h" "h \<in> set allowedSubjects"
    using heuristicSubject_key [of textLower] butlast_allowed by blast
  have g: "''General'' \<in> set allowedSubjects" by (simp add: allowedSubjects_def)
  show ?thesis
  proof (cases "modelMapped cleaned")
    case None
    with h g show ?thesis by (simp add: decision_def)
  next
    case (Some m)
    then have "m \<in> set allowedSubjects" by (rule modelMapped_allowed)
    with Some h show ?thesis by (simp add: decision_def)
  qed
qed

text \<open>
  C1: for every input, \<^verbatim>\<open>detectSubject\<close> returns one of the 15 labels of the taxonomy,
  on every return path: the model's vote, the heuristic vote, the fallback
  \<^verbatim>\<open>"General"\<close> and the error branch. In particular the result is never \<^verbatim>\<open>null\<close>.
\<close>

theorem detectSubject_in_taxonomy:
  "\<exists>l \<in> set allowedSubjects. fst (detectSubject svc text s) = Some l"
proof -
  have g: "''General'' \<in> set allowedSubjects" by (simp add: allowedSubjects_def)
  obtain r s' where gc: "generateContent svc (SubjectRequest (snippet text)) s = (r, s')"
    by (cases "generateContent svc (SubjectRequest (snippet text)) s") 
  show ?thesis
  proof (cases "text")
    case (FileContent f)
    with gc g show ?thesis
      by (cases r) (simp_all add: detectSubject_def detectSubject_try_def)
  next
    case (TextContent t)
    with gc g decision_allowed [of "toLowerCase t" "normalizeDetected (raw r)"] show ?thesis
      by (cases r) (auto simp add: detectSubject_def detectSubject_try_def)
  qed
qed

theorem detectSubject_in_taxonomy_witness:
  "fst (detectSubject scripted (TextContent ''integral theorem'') (script [Responds ''Physics.'']))
     = Some ''Mathematics''
   \<and> (\<exists>l \<in> set allowedSubjects.
        fst (detectSubject scripted (TextContent ''integral theorem'') (script [Responds ''Physics.'']))
          = Some l)"
proof -
  have "fst (detectSubject scripted (TextContent ''integral theorem'') (script [Responds ''Physics.'']))
     = Some ''Mathematics''"
    by code_simp
  with detectSubject_in_taxonomy [of scripted "TextContent ''integral theorem''" "script [Responds ''Physics.'']"]
  show ?thesis by blast
qed

section \<open>The keyword table\<close>

text \<open>
  C8 as stated: the keyword table has an entry for every label of the taxonomy,
  \<^verbatim>\<open>"General"\<close> included. The table has no entry for \<^verbatim>\<open>"General"\<close>.
\<close>

theorem keywordMap_all_labels_counterexample:
  "''General'' \<in> set allowedSubjects \<and> map_of keywordMap ''General'' = None"
  by (simp add: allowedSubjects_def keywordMap_def)

text \<open>
  C8, amended: the keys of the keyword table are, in order, the labels of the taxonomy
  without its last label \<^verbatim>\<open>"General"\<close>; each of these 14 labels has a non-empty list of
  keywords, and \<^verbatim>\<open>"General"\<close> has no entry.
\<close>

theorem keywordMap_labels:
  "map fst keywordMap = butlast allowedSubjects
   \<and> last allowedSubjects = ''General''
   \<and> map_of keywordMap ''General'' = None
   \<and> (\<forall>l \<in> set allowedSubjects. l \<noteq> ''General'' \<longrightarrow> (\<exists>kws. map_of keywordMap l = Some kws \<and> kws \<noteq> []))"
proof -
  have "map_of keywordMap ''General'' = None"
    by (simp add: keywordMap_def)
  moreover have "\<forall>l \<in> set allowedSubjects. l \<noteq> ''General'' \<longrightarrow> (\<exists>kws. map_of keywordMap l = Some kws \<and> kws \<noteq> [])"
    by (simp add: keywordMap_def allowedSubjects_def)
  moreover have "last allowedSubjects = ''General''" by (simp add: allowedSubjects_def)
  ultimately show ?thesis using keywordMap_keys by blast
qed

theorem keywordMap_labels_witness:
  "''Music'' \<in> set allowedSubjects \<and> ''Music'' \<noteq> ''General''
   \<and> (\<exists>kws. map_of keywordMap ''Music'' = Some kws \<and> kws \<noteq> [])"
proof -
  have m: "''Music'' \<in> set allowedSubjects" by (simp add: allowedSubjects_def)
  have n: "''Music'' \<noteq> ''General''" by simp
  from keywordMap_labels [THEN conjunct2, THEN conjunct2, THEN conjunct2, rule_format, OF m n] m n
  show ?thesis by (intro conjI)
qed

section \<open>The two detectors in terms of the reply of the service\<close>

lemma generateContent_fst: "fst (generateContent svc rq s) = fst (svc rq (world s))"
  by (simp add: generateContent_def split: prod.splits)

lemma generateContent_calls: "calls (snd (generateContent svc rq s)) = calls s @ [rq]"
  by (simp add: generateContent_def split: prod.splits)

lemma detectSubject_text:
  "fst (detectSubject svc (TextContent t) s) =
     (case fst (svc (SubjectRequest (snippet (TextContent t))) (world s)) of
        Rejects e \<Rightarrow> Some ''General''
      | TextThrows e \<Rightarrow> Some ''General''
      | r \<Rightarrow> decision (toLowerCase t) (normalizeDetected (raw r)))"
proof -
  obtain r s' where gc: "generateContent svc (SubjectRequest (snippet (TextContent t))) s = (r, s')"
    by (cases "generateContent svc (SubjectRequest (snippet (TextContent t))) s")
  then have "fst (svc (SubjectRequest (snippet (TextContent t))) (world s)) = r"
    using generateContent_fst [of svc "SubjectRequest (snippet (TextContent t))" s] by simp
  with gc show ?thesis
    by (cases r) (simp_all add: detectSubject_def detectSubject_try_def)
qed

lemma detectLanguage_text:
  "fst (detectLanguage svc (TextContent t) s) =
     (case fst (svc (LanguageRequest (substring t 0 500)) (world s)) of
        Responds r \<Rightarrow> trim (splitFirst (CHR ''.'') (splitFirst (CHR 0x0A) (trim r)))
      | _ \<Rightarrow> ''unknown'')"
proof -
  obtain r s' where gc: "generateContent svc (LanguageRequest (substring t 0 500)) s = (r, s')"
    by (cases "generateContent svc (LanguageRequest (substring t 0 500)) s")
  then have "fst (svc (LanguageRequest (substring t 0 500)) (world s)) = r"
    using generateContent_fst [of svc "LanguageRequest (substring t 0 500)" s] by simp
  with gc show ?thesis
    by (cases r) (simp_all add: detectLanguage_def detectLanguage_try_def)
qed

lemma General_no_key: "''General'' \<notin> set (butlast allowedSubjects)"
  by (simp add: allowedSubjects_def)

section \<open>The heuristic vote\<close>

text \<open>
  The heuristic top score is the largest score, and the heuristic top label is the first
  label of the keyword table, in declaration order, that reaches it: the sort is stable.
\<close>

lemma filter_Cons_find: "filter P xs = b # r \<Longrightarrow> find P xs = Some b"
  by (induction xs) (auto split: if_splits)

lemma heuristic_top:
  assumes "heuristicSubject x = Some h"
  shows "find (\<lambda>e. snd e = heuristicScore x) (scores x) = Some (h, heuristicScore x)
         \<and> (\<forall>e \<in> set (scores x). snd e \<le> heuristicScore x)"
proof -
  let ?f = "\<lambda>e :: string \<times> nat. - int (snd e)"
  obtain b rest where ys: "sortedScores x = b # rest"
    using sortedScores_length [of x] by (cases "sortedScores x") auto
  from ys assms have h: "h = fst b" by (simp add: heuristicSubject_def)
  from ys have sc: "heuristicScore x = snd b" by (simp add: heuristicScore_def)
  have "sorted (map ?f (sortedScores x))"
    by (simp add: sortedScores_def)
  with ys have "\<forall>e \<in> set (sortedScores x). ?f b \<le> ?f e" by auto
  then have top: "\<forall>e \<in> set (scores x). snd e \<le> snd b"
    by (simp add: sortedScores_set)
  have "filter (\<lambda>y. ?f y = ?f b) (scores x) = filter (\<lambda>y. ?f y = ?f b) (sortedScores x)"
    by (simp only: sortedScores_def sort_key_stable)
  also have "\<dots> = b # filter (\<lambda>y. ?f y = ?f b) rest"
    by (simp add: ys)
  finally have "find (\<lambda>y. ?f y = ?f b) (scores x) = Some b"
    by (rule filter_Cons_find)
  then have "find (\<lambda>e. snd e = snd b) (scores x) = Some b" by simp
  with top h sc show ?thesis by simp
qed

lemma map_of_scores:
  "map_of (scores textLower) subject =
     map_option (\<lambda>keywords. length (filter (\<lambda>kw. kw \<noteq> [] \<and> includes_js textLower kw) keywords))
       (map_of keywordMap subject)"
  by (simp add: scores_def map_of_map)

lemma keywords_visible:
  "list_all (\<lambda>(subject, keywords).
      list_all (\<lambda>kw. case kw of [] \<Rightarrow> False | c # _ \<Rightarrow> \<not> isWhiteSpace c) keywords) keywordMap"
  by code_simp

lemma heuristicScore_in_scores:
  "\<exists>e \<in> set (scores x). snd e = heuristicScore x"
proof (cases "sortedScores x")
  case Nil
  then show ?thesis using sortedScores_length [of x] by simp
next
  case (Cons best rest)
  then have "best \<in> set (scores x)"
    using sortedScores_set [of x] by auto
  with Cons show ?thesis by (auto simp add: heuristicScore_def)
qed

text \<open>
  The score that the decision looks up for a label is the number of the keywords of that
  label that occur in the lower-cased text, and 0 for a label without keywords. A label of
  the table that has the largest score, and is the first one in the table to have it, is
  the heuristic top label, with that score.
\<close>

lemma find_map_option: "find P (map f xs) = map_option f (find (\<lambda>x. P (f x)) xs)"
  by (induction xs) simp_all

lemma keywordMap_distinct: "distinct (map fst keywordMap)"
  by (simp add: keywordMap_keys allowedSubjects_def)

lemma scores_entry:
  assumes "e \<in> set (scores x)"
  shows "snd e = modelScore x (fst e)"
proof -
  have "distinct (map fst (scores x))"
    by (simp only: scores_keys keywordMap_distinct)
  with assms have "map_of (scores x) (fst e) = Some (snd e)"
    by simp
  then show ?thesis by (simp add: modelScore_def)
qed

lemma modelScore_count:
  "modelScore x l =
     (case map_of keywordMap l of
        None \<Rightarrow> 0
      | Some kws \<Rightarrow> length (filter (\<lambda>kw. kw \<noteq> [] \<and> includes_js x kw) kws))"
  by (simp add: modelScore_def map_of_scores split: option.splits)

lemma heuristic_first_top:
  assumes top: "\<forall>l \<in> set (map fst keywordMap). modelScore x l \<le> modelScore x H"
    and first: "find (\<lambda>l. modelScore x l = modelScore x H) (map fst keywordMap) = Some H"
  shows "heuristicSubject x = Some H \<and> heuristicScore x = modelScore x H"
proof -
  obtain h where hs: "heuristicSubject x = Some h"
    using heuristicSubject_key [of x] by blast
  from heuristic_top [OF hs]
  have f1: "find (\<lambda>e. snd e = heuristicScore x) (scores x) = Some (h, heuristicScore x)"
    and f2: "\<forall>e \<in> set (scores x). snd e \<le> heuristicScore x"
    by simp_all
  from f1 have mem: "(h, heuristicScore x) \<in> set (scores x)"
    by (auto simp add: find_Some_iff)
  from scores_entry [OF mem] have sh: "heuristicScore x = modelScore x h" by simp
  from mem have "h \<in> set (map fst (scores x))" by force
  then have "h \<in> set (map fst keywordMap)" by (simp only: scores_keys)
  with top have le1: "modelScore x h \<le> modelScore x H" by blast
  from first have "H \<in> set (map fst keywordMap)"
    by (auto simp add: find_Some_iff)
  then have "H \<in> set (map fst (scores x))" by (simp only: scores_keys)
  then obtain e where e: "e \<in> set (scores x)" "fst e = H" by auto
  with scores_entry [OF e(1)] f2 have le2: "modelScore x H \<le> heuristicScore x" by auto
  from sh le1 le2 have eq: "heuristicScore x = modelScore x H" by simp
  have "find (\<lambda>l. modelScore x l = modelScore x H) (map fst (scores x))
      = map_option fst (find (\<lambda>e. modelScore x (fst e) = modelScore x H) (scores x))"
    by (rule find_map_option)
  also have "find (\<lambda>e. modelScore x (fst e) = modelScore x H) (scores x)
      = find (\<lambda>e. snd e = heuristicScore x) (scores x)"
    by (rule find_cong) (simp_all add: scores_entry eq)
  finally have "find (\<lambda>l. modelScore x l = modelScore x H) (map fst keywordMap) = Some h"
    by (simp add: f1 scores_keys)
  with first have "h = H" by simp
  with hs eq show ?thesis by simp
qed

lemma zero_score_no_keyword:
  assumes "heuristicScore x = 0" and "(l, kws) \<in> set keywordMap" and "kw \<in> set kws"
  shows "\<not> includes_js x kw"
proof
  assume inc: "includes_js x kw"
  from keywords_visible assms(2,3) have ne: "kw \<noteq> []"
    by (auto simp add: list_all_iff split: list.splits)
  from heuristicSubject_key [of x] obtain h where "heuristicSubject x = Some h" by blast
  from heuristic_top [OF this] assms(1)
  have "\<forall>e \<in> set (scores x). snd e = 0" by simp
  moreover have "(l, length (filter (\<lambda>kw. kw \<noteq> [] \<and> includes_js x kw) kws)) \<in> set (scores x)"
    using assms(2) by (force simp add: scores_def)
  ultimately have "filter (\<lambda>kw. kw \<noteq> [] \<and> includes_js x kw) kws = []" by fastforce
  with assms(3) ne inc show False by (auto simp add: filter_empty_conv)
qed

section \<open>The voting rule\<close>

text \<open>
  C2: let the score of a label be the number of its keywords that occur in the
  lower-cased text (0 for a label without keywords), and let \<open>H\<close> be the first label of
  the keyword table whose score is the largest. When the call returns, its text can be
  read and the normalised answer of the model is a label \<open>M\<close>, then \<open>H\<close> is returned
  instead of \<open>M\<close> exactly when \<open>H\<close> differs from \<open>M\<close>, the score of \<open>H\<close> is at least 2 and
  it is strictly greater than the score of \<open>M\<close> itself; otherwise \<open>M\<close> is returned. When
  the answer yields no label, \<open>H\<close> is returned if its score is positive, and
  \<^verbatim>\<open>"General"\<close> otherwise.
\<close>

theorem detectSubject_vote:
  assumes reply: "fst (svc (SubjectRequest (snippet (TextContent t))) (world s)) = r"
    and returns: "\<forall>e. r \<noteq> Rejects e \<and> r \<noteq> TextThrows e"
    and score: "\<forall>l. score l =
      (case map_of keywordMap l of
         None \<Rightarrow> 0
       | Some kws \<Rightarrow> length (filter (\<lambda>kw. kw \<noteq> [] \<and> includes_js (toLowerCase t) kw) kws))"
    and top: "\<forall>l \<in> set (map fst keywordMap). score l \<le> score H"
    and first: "find (\<lambda>l. score l = score H) (map fst keywordMap) = Some H"
  shows "(modelMapped (normalizeDetected (raw r)) = Some M \<longrightarrow>
           fst (detectSubject svc (TextContent t) s) =
             (if H \<noteq> M \<and> 2 \<le> score H \<and> score M < score H then Some H else Some M))
       \<and> (modelMapped (normalizeDetected (raw r)) = None \<longrightarrow>
           fst (detectSubject svc (TextContent t) s) =
             (if 0 < score H then Some H else Some ''General''))"
proof -
  have sc: "score l = modelScore (toLowerCase t) l" for l
    using score by (simp add: modelScore_count)
  from top first have "heuristicSubject (toLowerCase t) = Some H
      \<and> heuristicScore (toLowerCase t) = modelScore (toLowerCase t) H"
    unfolding sc by (rule heuristic_first_top)
  then have hs: "heuristicSubject (toLowerCase t) = Some H"
    and hsc: "heuristicScore (toLowerCase t) = score H"
    by (simp_all add: sc)
  from reply returns show ?thesis
    by (cases r) (auto simp add: detectSubject_text decision_def hs hsc sc)
qed

theorem detectSubject_vote_witness:
  "modelMapped (normalizeDetected (raw (Responds ''Physics''))) = Some ''Physics''
   \<and> modelScore (toLowerCase ''vector field'') ''Mathematics'' = 2
   \<and> modelScore (toLowerCase ''vector field'') ''Physics'' = 2
   \<and> fst (detectSubject scripted (TextContent ''vector field'') (script [Responds ''Physics'']))
       = Some ''Physics''
   \<and> modelMapped (normalizeDetected (raw (Responds ''Mathematics.''))) = Some ''Mathematics''
   \<and> modelScore (toLowerCase ''force quantum'') ''Physics'' = 2
   \<and> modelScore (toLowerCase ''force quantum'') ''Mathematics'' = 0
   \<and> fst (detectSubject scripted (TextContent ''force quantum'')
         (script [Responds ''Mathematics.'']))
       = Some ''Physics''"
proof -
  let ?score1 = "\<lambda>l. case map_of keywordMap l of
         None \<Rightarrow> 0
       | Some kws \<Rightarrow> length (filter (\<lambda>kw. kw \<noteq> [] \<and> includes_js ''vector field'' kw) kws)"
  let ?score2 = "\<lambda>l. case map_of keywordMap l of
         None \<Rightarrow> 0
       | Some kws \<Rightarrow> length (filter (\<lambda>kw. kw \<noteq> [] \<and> includes_js ''force quantum'' kw) kws)"
  have r1: "fst (scripted (SubjectRequest (snippet (TextContent ''vector field'')))
      (world (script [Responds ''Physics'']))) = Responds ''Physics''"
    by (simp add: scripted_def script_def)
  have r2: "fst (scripted (SubjectRequest (snippet (TextContent ''force quantum'')))
      (world (script [Responds ''Mathematics.'']))) = Responds ''Mathematics.''"
    by (simp add: scripted_def script_def)
  have n1: "\<forall>e. Responds ''Physics'' \<noteq> Rejects e \<and> Responds ''Physics'' \<noteq> TextThrows e"
    by simp
  have n2: "\<forall>e. Responds ''Mathematics.'' \<noteq> Rejects e \<and> Responds ''Mathematics.'' \<noteq> TextThrows e"
    by simp
  have lc1: "toLowerCase ''vector field'' = ''vector field''" by code_simp
  have lc2: "toLowerCase ''force quantum'' = ''force quantum''" by code_simp
  have d1: "\<forall>l. ?score1 l =
      (case map_of keywordMap l of
         None \<Rightarrow> 0
       | Some kws \<Rightarrow> length (filter (\<lambda>kw. kw \<noteq> [] \<and> includes_js (toLowerCase ''vector field'') kw) kws))"
    by (simp only: lc1) simp
  have d2: "\<forall>l. ?score2 l =
      (case map_of keywordMap l of
         None \<Rightarrow> 0
       | Some kws \<Rightarrow> length (filter (\<lambda>kw. kw \<noteq> [] \<and> includes_js (toLowerCase ''force quantum'') kw) kws))"
    by (simp only: lc2) simp
  have a1: "?score1 ''Mathematics'' = 2" by code_simp
  have b1: "?score1 ''Physics'' = 2" by code_simp
  have a2: "?score2 ''Physics'' = 2" by code_simp
  have b2: "?score2 ''Mathematics'' = 0" by code_simp
  have t1: "\<forall>l \<in> set (map fst keywordMap). ?score1 l \<le> ?score1 ''Mathematics''"
    unfolding a1 by code_simp
  have f1: "find (\<lambda>l. ?score1 l = ?score1 ''Mathematics'') (map fst keywordMap) = Some ''Mathematics''"
    unfolding a1 by code_simp
  have t2: "\<forall>l \<in> set (map fst keywordMap). ?score2 l \<le> ?score2 ''Physics''"
    unfolding a2 by code_simp
  have f2: "find (\<lambda>l. ?score2 l = ?score2 ''Physics'') (map fst keywordMap) = Some ''Physics''"
    unfolding a2 by code_simp
  have m1: "modelMapped (normalizeDetected (raw (Responds ''Physics''))) = Some ''Physics''"
    by code_simp
  have m2: "modelMapped (normalizeDetected (raw (Responds ''Mathematics.''))) = Some ''Mathematics''"
    by code_simp
  note v1 = detectSubject_vote [of scripted "''vector field''" "script [Responds ''Physics'']"
      "Responds ''Physics''" ?score1 "''Mathematics''" "''Physics''",
      OF r1 n1 d1 t1 f1, THEN conjunct1, rule_format, OF m1]
  note v2 = detectSubject_vote [of scripted "''force quantum''"
      "script [Responds ''Mathematics.'']" "Responds ''Mathematics.''" ?score2 "''Physics''"
      "''Mathematics''", OF r2 n2 d2 t2 f2, THEN conjunct1, rule_format, OF m2]
  have c1: "fst (detectSubject scripted (TextContent ''vector field'') (script [Responds ''Physics'']))
       = Some ''Physics''"
    using v1 unfolding a1 b1 by simp
  have c2: "fst (detectSubject scripted (TextContent ''force quantum'')
         (script [Responds ''Mathematics.''])) = Some ''Physics''"
    using v2 unfolding a2 b2 by simp
  from a1 b1 a2 b2 have sc: "modelScore (toLowerCase ''vector field'') ''Mathematics'' = 2"
      "modelScore (toLowerCase ''vector field'') ''Physics'' = 2"
      "modelScore (toLowerCase ''force quantum'') ''Physics'' = 2"
      "modelScore (toLowerCase ''force quantum'') ''Mathematics'' = 0"
    by (simp_all only: modelScore_count lc1 lc2)
  from m1 sc c1 m2 c2 show ?thesis by (intro conjI)
qed

section \<open>A rejected call\<close>

text \<open>
  C4: if the external call rejects, the \<^verbatim>\<open>try\<close> block of each detector ends with that
  error, and the detector returns its sentinel: \<^verbatim>\<open>"unknown"\<close> for \<^verbatim>\<open>detectLanguage\<close>,
  \<^verbatim>\<open>"General"\<close> for \<^verbatim>\<open>detectSubject\<close>. The error does not reach the caller.
\<close>

theorem detection_absorbs_rejection:
  "(fst (svc (LanguageRequest (substring t 0 500)) (world s)) = Rejects e \<longrightarrow>
      fst (detectLanguage_try svc (TextContent t) s) = Inl (Rejected e)
      \<and> fst (detectLanguage svc (TextContent t) s) = ''unknown'')
   \<and> (fst (svc (SubjectRequest (snippet (TextContent t))) (world s)) = Rejects e \<longrightarrow>
      fst (detectSubject_try svc (TextContent t) s) = Inl (Rejected e)
      \<and> fst (detectSubject svc (TextContent t) s) = Some ''General'')"
proof -
  have "fst (detectLanguage_try svc (TextContent t) s) = Inl (Rejected e)"
    if "fst (svc (LanguageRequest (substring t 0 500)) (world s)) = Rejects e"
    using that generateContent_fst [of svc "LanguageRequest (substring t 0 500)" s]
    by (auto simp add: detectLanguage_try_def split: prod.splits reply.splits)
  moreover have "fst (detectSubject_try svc (TextContent t) s) = Inl (Rejected e)"
    if "fst (svc (SubjectRequest (snippet (TextContent t))) (world s)) = Rejects e"
    using that generateContent_fst [of svc "SubjectRequest (snippet (TextContent t))" s]
    by (auto simp add: detectSubject_try_def split: prod.splits reply.splits)
  ultimately show ?thesis
    by (simp add: detectLanguage_text detectSubject_text)
qed

theorem detection_absorbs_rejection_witness:
  "fst (scripted (LanguageRequest (substring ''hola'' 0 500)) (world (script []))) = Rejects ''no reply''
   \<and> fst (detectLanguage scripted (TextContent ''hola'') (script [])) = ''unknown''
   \<and> fst (scripted (SubjectRequest (snippet (TextContent ''hola''))) (world (script []))) = Rejects ''no reply''
   \<and> fst (detectSubject scripted (TextContent ''hola'') (script [])) = Some ''General''"
proof -
  have l: "fst (scripted (LanguageRequest (substring ''hola'' 0 500)) (world (script [])))
      = Rejects ''no reply''"
    by (simp add: scripted_def script_def)
  have s: "fst (scripted (SubjectRequest (snippet (TextContent ''hola''))) (world (script [])))
      = Rejects ''no reply''"
    by (simp add: scripted_def script_def)
  from detection_absorbs_rejection [of scripted "''hola''" "script []" "''no reply''"] l s
  show ?thesis by simp
qed

section \<open>\<^verbatim>\<open>"General"\<close> never wins the keyword vote\<close>

text \<open>
  C10: the heuristic top label is never \<^verbatim>\<open>"General"\<close>, which has no keywords. When
  \<^verbatim>\<open>detectSubject\<close> returns \<^verbatim>\<open>"General"\<close>, either the \<^verbatim>\<open>try\<close> block ended with an
  error (the call was rejected, or the text of the reply could not be read), or the answer
  of the model was normalised to \<^verbatim>\<open>"General"\<close>, or the answer gave no label and no keyword
  of the table occurs in the lower-cased text, so that the top score is 0.
\<close>

theorem heuristic_never_General:
  "heuristicSubject textLower \<noteq> Some ''General''
   \<and> (fst (detectSubject svc (TextContent t) s) = Some ''General'' \<longrightarrow>
        (\<exists>err. fst (detectSubject_try svc (TextContent t) s) = Inl err)
        \<or> modelMapped (normalizeDetected
              (raw (fst (svc (SubjectRequest (snippet (TextContent t))) (world s)))))
            = Some ''General''
        \<or> (modelMapped (normalizeDetected
              (raw (fst (svc (SubjectRequest (snippet (TextContent t))) (world s)))))
            = None
           \<and> (\<forall>l kws kw. (l, kws) \<in> set keywordMap \<and> kw \<in> set kws
                  \<longrightarrow> \<not> includes_js (toLowerCase t) kw)))"
proof -
  have h: "heuristicSubject x \<noteq> Some ''General''" for x
    using heuristicSubject_key [of x] General_no_key by auto
  let ?r = "fst (svc (SubjectRequest (snippet (TextContent t))) (world s))"
  obtain res s' where run: "detectSubject_try svc (TextContent t) s = (res, s')"
    by (cases "detectSubject_try svc (TextContent t) s")
  have second: "modelMapped (normalizeDetected (raw ?r)) = Some ''General''
        \<or> (modelMapped (normalizeDetected (raw ?r)) = None
           \<and> (\<forall>l kws kw. (l, kws) \<in> set keywordMap \<and> kw \<in> set kws
                  \<longrightarrow> \<not> includes_js (toLowerCase t) kw))"
    if g: "fst (detectSubject svc (TextContent t) s) = Some ''General''"
      and ok: "\<not> (\<exists>err. fst (detectSubject_try svc (TextContent t) s) = Inl err)"
  proof -
    from ok run obtain v where v: "res = Inr v" by (cases res) auto
    obtain r s1 where gc: "generateContent svc (SubjectRequest (snippet (TextContent t))) s = (r, s1)"
      by (cases "generateContent svc (SubjectRequest (snippet (TextContent t))) s")
    then have r: "?r = r"
      using generateContent_fst [of svc "SubjectRequest (snippet (TextContent t))" s] by simp
    from run v gc have d: "v = decision (toLowerCase t) (normalizeDetected (raw r))"
      by (cases r) (auto simp add: detectSubject_try_def)
    from g run v have "v = Some ''General''" by (simp add: detectSubject_def)
    with d have dec: "decision (toLowerCase t) (normalizeDetected (raw ?r)) = Some ''General''"
      by (simp add: r)
    show ?thesis
    proof (cases "modelMapped (normalizeDetected (raw ?r))")
      case None
      with dec h [of "toLowerCase t"] have "heuristicScore (toLowerCase t) = 0"
        by (auto simp add: decision_def split: if_splits)
      with None show ?thesis using zero_score_no_keyword [of "toLowerCase t"] by blast
    next
      case (Some m)
      with dec h [of "toLowerCase t"] show ?thesis
        by (auto simp add: decision_def split: if_splits)
    qed
  qed
  from h [of textLower] second show ?thesis by blast
qed

theorem heuristic_never_General_witness:
  "fst (detectSubject scripted (TextContent ''hola'') (script [Responds ''no idea''])) = Some ''General''
   \<and> fst (detectSubject_try scripted (TextContent ''hola'') (script [Responds ''no idea'']))
       = Inr (Some ''General'')
   \<and> modelMapped (normalizeDetected (raw (fst (scripted (SubjectRequest (snippet (TextContent ''hola'')))
         (world (script [Responds ''no idea'']))))))
       = None"
proof -
  have g: "fst (detectSubject scripted (TextContent ''hola'') (script [Responds ''no idea'']))
      = Some ''General''"
    by code_simp
  have tr: "fst (detectSubject_try scripted (TextContent ''hola'') (script [Responds ''no idea'']))
       = Inr (Some ''General'')"
    by code_simp
  have r: "fst (scripted (SubjectRequest (snippet (TextContent ''hola'')))
         (world (script [Responds ''no idea'']))) = Responds ''no idea''"
    by (simp add: scripted_def script_def)
  have m: "modelMapped (normalizeDetected (raw (Responds ''no idea''))) \<noteq> Some ''General''"
    by code_simp
  from heuristic_never_General [of _ scripted "''hola''" "script [Responds ''no idea'']",
      THEN conjunct2, rule_format, OF g]
  have "modelMapped (normalizeDetected (raw (fst (scripted (SubjectRequest (snippet (TextContent ''hola'')))
         (world (script [Responds ''no idea'']))))))
       = None"
    using m by (simp add: r tr)
  with g tr show ?thesis by (intro conjI)
qed

section \<open>The requests sent while a form is handled\<close>

lemma detectLanguage_calls:
  "calls (snd (detectLanguage svc (TextContent t) s)) = calls s @ [LanguageRequest (substring t 0 500)]"
proof -
  obtain r s' where gc: "generateContent svc (LanguageRequest (substring t 0 500)) s = (r, s')"
    by (cases "generateContent svc (LanguageRequest (substring t 0 500)) s")
  then have "calls s' = calls s @ [LanguageRequest (substring t 0 500)]"
    using generateContent_calls [of svc "LanguageRequest (substring t 0 500)" s] by simp
  with gc show ?thesis
    by (cases r) (simp_all add: detectLanguage_def detectLanguage_try_def)
qed

lemma detectSubject_calls:
  "calls (snd (detectSubject svc c s)) = calls s @ [SubjectRequest (snippet c)]"
proof -
  obtain r s' where gc: "generateContent svc (SubjectRequest (snippet c)) s = (r, s')"
    by (cases "generateContent svc (SubjectRequest (snippet c)) s")
  then have "calls s' = calls s @ [SubjectRequest (snippet c)]"
    using generateContent_calls [of svc "SubjectRequest (snippet c)" s] by simp
  with gc show ?thesis
    by (cases r; cases c) (simp_all add: detectSubject_def detectSubject_try_def)
qed

lemma validate_languageRequests:
  "languageRequests (calls (snd (validate svc target notes s))) = languageRequests (calls s)"
proof -
  obtain r s' where gc: "generateContent svc (CorrectionRequest target notes) s = (r, s')"
    by (cases "generateContent svc (CorrectionRequest target notes) s")
  then have "calls s' = calls s @ [CorrectionRequest target notes]"
    using generateContent_calls [of svc "CorrectionRequest target notes" s] by simp
  with gc show ?thesis
    by (cases r) (simp_all add: validate_def languageRequests_def)
qed

lemma finish_languageRequests:
  "languageRequests (calls (snd (finish svc db ty c d s))) = languageRequests (calls s)"
proof -
  obtain r s1 where gc: "generateContent svc (NotesRequest (userPrompt d) (audioFile d)) s = (r, s1)"
    by (cases "generateContent svc (NotesRequest (userPrompt d) (audioFile d)) s")
  then have c1: "calls s1 = calls s @ [NotesRequest (userPrompt d) (audioFile d)]"
    using generateContent_calls [of svc "NotesRequest (userPrompt d) (audioFile d)" s] by simp
  then have l1: "languageRequests (calls s1) = languageRequests (calls s)"
    by (simp add: languageRequests_def)
  show ?thesis
  proof (cases r)
    case (Responds answer)
    obtain g s2 where v: "validate svc (targetLanguage (detectedLanguage d)) answer s1 = (g, s2)"
      by (cases "validate svc (targetLanguage (detectedLanguage d)) answer s1")
    then have "languageRequests (calls s2) = languageRequests (calls s1)"
      using validate_languageRequests [of svc "targetLanguage (detectedLanguage d)" answer s1] by simp
    with gc Responds v l1 show ?thesis
      by (cases db) (simp_all add: finish_def Let_def)
  next
    case (Rejects e)
    with gc l1 show ?thesis by (simp add: finish_def)
  next
    case (TextThrows e)
    with gc l1 show ?thesis by (simp add: finish_def)
  next
    case NoText
    with gc l1 show ?thesis by (simp add: finish_def)
  qed
qed

lemma finish_Success:
  assumes "finish svc db ty c d s = ((Success note nid, stored), s')"
  shows "detected_language note = targetLanguage (detectedLanguage d)
         \<and> detected_subject note = detectedSubject d
         \<and> (stored = None \<or> stored = Some note)"
proof -
  obtain r s1 where gc: "generateContent svc (NotesRequest (userPrompt d) (audioFile d)) s = (r, s1)"
    by (cases "generateContent svc (NotesRequest (userPrompt d) (audioFile d)) s")
  show ?thesis
  proof (cases r)
    case (Responds answer)
    obtain g s2 where v: "validate svc (targetLanguage (detectedLanguage d)) answer s1 = (g, s2)"
      by (cases "validate svc (targetLanguage (detectedLanguage d)) answer s1")
    with gc Responds assms show ?thesis
      by (cases db) (auto simp add: finish_def Let_def)
  next
    case (Rejects e)
    with gc assms show ?thesis by (simp add: finish_def)
  next
    case (TextThrows e)
    with gc assms show ?thesis by (simp add: finish_def)
  next
    case NoText
    with gc assms show ?thesis by (simp add: finish_def)
  qed
qed

lemma targetLanguage_known: "targetLanguage l \<noteq> ''unknown'' \<and> targetLanguage l \<noteq> []"
  by (simp add: targetLanguage_def)

section \<open>The retry of the language detection on the text path\<close>

text \<open>
  C5: on the text path, when the first detected language is \<^verbatim>\<open>"unknown"\<close> or contains
  \<^verbatim>\<open>"English"\<close> or contains \<^verbatim>\<open>"##"\<close>, \<^verbatim>\<open>detectLanguage\<close> is called once more on the
  same content and its result replaces the first one; otherwise the first result is
  kept. The requests of the detection are the language request, the subject request and,
  only when retrying, the same language request again; the rest of the handling sends no
  further language request.
\<close>

theorem text_path_retry:
  assumes "t \<noteq> []"
    and "detectLanguage svc (TextContent t) s = (l1, s1)"
    and "detectSubject svc (TextContent t) s1 = (subj, s2)"
    and "detectLanguage svc (TextContent t) s2 = (l2, s3)"
    and "textBranch svc (TextContent t) s = (d, s')"
  shows "(if l1 = ''unknown'' \<or> includes_js l1 ''English'' \<or> includes_js l1 ''##''
          then detectedLanguage d = l2 \<and> s' = s3
             \<and> calls s' = calls s @ [LanguageRequest (substring t 0 500),
                                      SubjectRequest (snippet (TextContent t)),
                                      LanguageRequest (substring t 0 500)]
          else detectedLanguage d = l1 \<and> s' = s2
             \<and> calls s' = calls s @ [LanguageRequest (substring t 0 500),
                                      SubjectRequest (snippet (TextContent t))])
       \<and> languageRequests (calls (snd (generateNotes svc db (Some ''text'') (Some (TextContent t)) s)))
           = languageRequests (calls s')"
proof -
  have c1: "calls s1 = calls s @ [LanguageRequest (substring t 0 500)]"
    using detectLanguage_calls [of svc t s] assms(2) by simp
  have c2: "calls s2 = calls s1 @ [SubjectRequest (snippet (TextContent t))]"
    using detectSubject_calls [of svc "TextContent t" s1] assms(3) by simp
  have c3: "calls s3 = calls s2 @ [LanguageRequest (substring t 0 500)]"
    using detectLanguage_calls [of svc t s2] assms(4) by simp
  have branch: "if l1 = ''unknown'' \<or> includes_js l1 ''English'' \<or> includes_js l1 ''##''
          then detectedLanguage d = l2 \<and> s' = s3 else detectedLanguage d = l1 \<and> s' = s2"
    using assms(2-5) by (auto simp add: textBranch_def retryCondition_def)
  have handler: "generateNotes svc db (Some ''text'') (Some (TextContent t)) s
      = finish svc db ''text'' (TextContent t) d s'"
    using assms(1,5) by (simp add: generateNotes_def)
  show ?thesis
    using branch c1 c2 c3 finish_languageRequests [of svc db "''text''" "TextContent t" d s']
    by (simp add: handler split: if_splits)
qed

theorem text_path_retry_witness:
  "''hola'' \<noteq> []
   \<and> fst (detectLanguage scripted (TextContent ''hola'')
        (script [Rejects ''503'', Responds ''History'', Responds ''Spanish'', Responds ''apuntes'']))
      = ''unknown''
   \<and> detectedLanguage (fst (textBranch scripted (TextContent ''hola'')
        (script [Rejects ''503'', Responds ''History'', Responds ''Spanish'', Responds ''apuntes''])))
      = ''Spanish''
   \<and> calls (snd (textBranch scripted (TextContent ''hola'')
        (script [Rejects ''503'', Responds ''History'', Responds ''Spanish'', Responds ''apuntes''])))
      = [LanguageRequest ''hola'', SubjectRequest ''hola'', LanguageRequest ''hola'']
   \<and> languageRequests (calls (snd (generateNotes scripted NotConnected (Some ''text'')
        (Some (TextContent ''hola''))
        (script [Rejects ''503'', Responds ''History'', Responds ''Spanish'', Responds ''apuntes'']))))
      = [LanguageRequest ''hola'', LanguageRequest ''hola'']"
proof -
  let ?c = "TextContent ''hola''"
  let ?s = "script [Rejects ''503'', Responds ''History'', Responds ''Spanish'', Responds ''apuntes'']"
  let ?s1 = "snd (detectLanguage scripted ?c ?s)"
  let ?s2 = "snd (detectSubject scripted ?c ?s1)"
  have n: "''hola'' \<noteq> []" by simp
  have l1: "fst (detectLanguage scripted ?c ?s) = ''unknown''" by code_simp
  have l2: "fst (detectLanguage scripted ?c ?s2) = ''Spanish''" by code_simp
  have sub: "substring ''hola'' 0 500 = ''hola''" by code_simp
  have snip: "snippet ?c = ''hola''" by code_simp
  have cs: "calls ?s = []" by (simp add: script_def)
  have h1: "detectLanguage scripted ?c ?s = (''unknown'', ?s1)"
    using l1 by (simp add: prod_eq_iff)
  have h2: "detectSubject scripted ?c ?s1 = (fst (detectSubject scripted ?c ?s1), ?s2)"
    by simp
  have h3: "detectLanguage scripted ?c ?s2 = (''Spanish'', snd (detectLanguage scripted ?c ?s2))"
    using l2 by (simp add: prod_eq_iff)
  have h4: "textBranch scripted ?c ?s = (fst (textBranch scripted ?c ?s), snd (textBranch scripted ?c ?s))"
    by simp
  note th = text_path_retry [of "''hola''" scripted ?s "''unknown''" ?s1 _ ?s2 "''Spanish''" _ _ _
      NotConnected, OF n h1 h2 h3 h4]
  have cond: "''unknown'' = ''unknown'' \<or> includes_js ''unknown'' ''English''
      \<or> includes_js ''unknown'' ''##''"
    by simp
  note taken = th [THEN conjunct1, unfolded if_P [OF cond]]
  note a = taken [THEN conjunct1]
  note b = taken [THEN conjunct2, THEN conjunct2, unfolded sub snip cs append_Nil]
  from th have "languageRequests (calls (snd (generateNotes scripted NotConnected (Some ''text'')
        (Some ?c) ?s))) = languageRequests (calls (snd (textBranch scripted ?c ?s)))"
    by (rule conjunct2)
  then have c: "languageRequests (calls (snd (generateNotes scripted NotConnected (Some ''text'')
        (Some ?c) ?s))) = [LanguageRequest ''hola'', LanguageRequest ''hola'']"
    by (simp only: b) (simp add: languageRequests_def)
  from n l1 a b c show ?thesis by (intro conjI)
qed

section \<open>The language of a note\<close>

text \<open>
  C6 as stated: the note carries the detected language whenever that is not
  \<^verbatim>\<open>"unknown"\<close>. When the detection yields the empty string, which is not
  \<^verbatim>\<open>"unknown"\<close>, the note carries \<^verbatim>\<open>"English"\<close>.
\<close>

theorem stored_language_counterexample:
  "detectedLanguage (fst (textBranch scripted (TextContent ''hola'')
       (script [Responds [], Responds ''General'', Responds ''apuntes'', Rejects ''503''])))
     = []
   \<and> fst (generateNotes scripted (Saves ''n1'') (Some ''text'') (Some (TextContent ''hola''))
       (script [Responds [], Responds ''General'', Responds ''apuntes'', Rejects ''503'']))
     = (Success \<lparr>input_type = ''text'', generated_notes = ''apuntes'',
                  detected_language = ''English'', detected_subject = Some ''General'',
                  original_content = ''hola''\<rparr> (Some ''n1''),
        Some \<lparr>input_type = ''text'', generated_notes = ''apuntes'',
               detected_language = ''English'', detected_subject = Some ''General'',
               original_content = ''hola''\<rparr>)"
  by code_simp

text \<open>
  C6, amended: every note returned by the handler, and the stored note when there is
  one, carries the detected language when that is neither empty nor \<^verbatim>\<open>"unknown"\<close>, and
  \<^verbatim>\<open>"English"\<close> otherwise; it never carries \<^verbatim>\<open>"unknown"\<close>.
\<close>

theorem stored_language:
  assumes "generateNotes svc db (Some ty) (Some c) s = ((Success note note_id, stored), s')"
  shows "detected_language note =
           (let l = detectedLanguage (fst (if ty = ''text'' then textBranch svc c s
                                           else audioBranch svc c s))
            in if l \<noteq> [] \<and> l \<noteq> ''unknown'' then l else ''English'')
         \<and> detected_language note \<noteq> ''unknown''
         \<and> (stored = None \<or> stored = Some note)"
proof -
  define d where "d = fst (if ty = ''text'' then textBranch svc c s else audioBranch svc c s)"
  define s1 where "s1 = snd (if ty = ''text'' then textBranch svc c s else audioBranch svc c s)"
  from assms have "finish svc db ty c d s1 = ((Success note note_id, stored), s')"
    by (auto simp add: generateNotes_def d_def s1_def split: if_splits prod.splits)
  from finish_Success [OF this] targetLanguage_known [of "detectedLanguage d"]
  show ?thesis
    by (simp add: d_def targetLanguage_def Let_def)
qed

theorem stored_language_witness:
  "fst (generateNotes scripted (Saves ''n1'') (Some ''audio'') (Some (TextContent ''hola''))
       (script [Responds ''Spanish.'', Responds ''General'', Responds ''apuntes'', Rejects ''503'']))
     = (Success \<lparr>input_type = ''audio'', generated_notes = ''apuntes'',
                  detected_language = ''Spanish'', detected_subject = Some ''General'',
                  original_content = ''hola''\<rparr> (Some ''n1''),
        Some \<lparr>input_type = ''audio'', generated_notes = ''apuntes'',
               detected_language = ''Spanish'', detected_subject = Some ''General'',
               original_content = ''hola''\<rparr>)
   \<and> detectedLanguage (fst (audioBranch scripted (TextContent ''hola'')
       (script [Responds ''Spanish.'', Responds ''General'', Responds ''apuntes'', Rejects ''503''])))
     = ''Spanish''"
proof -
  let ?s = "script [Responds ''Spanish.'', Responds ''General'', Responds ''apuntes'', Rejects ''503'']"
  let ?n = "\<lparr>input_type = ''audio'', generated_notes = ''apuntes'',
                  detected_language = ''Spanish'', detected_subject = Some ''General'',
                  original_content = ''hola''\<rparr>"
  let ?run = "generateNotes scripted (Saves ''n1'') (Some ''audio'') (Some (TextContent ''hola'')) ?s"
  have r: "fst ?run = (Success ?n (Some ''n1''), Some ?n)" by code_simp
  then have h: "?run = ((Success ?n (Some ''n1''), Some ?n), snd ?run)"
    by (simp add: prod_eq_iff)
  from stored_language [OF h] r show ?thesis
    by (simp add: Let_def split: if_splits)
qed

section \<open>A transcript submitted as audio\<close>

text \<open>
  C7: a transcript submitted with type \<^verbatim>\<open>"audio"\<close> goes through the same detection as a
  text, the retry of the language detection included. The run below has a first language
  call that is rejected: the text path retries and obtains \<^verbatim>\<open>"Spanish"\<close>, the transcript
  path sends no second language request and stays at \<^verbatim>\<open>"unknown"\<close>.
\<close>

theorem transcript_path_has_no_retry:
  "detectedLanguage (fst (textBranch scripted (TextContent ''hola'')
       (script [Rejects ''503'', Responds ''General'', Responds ''Spanish''])))
     = ''Spanish''
   \<and> detectedLanguage (fst (audioBranch scripted (TextContent ''hola'')
       (script [Rejects ''503'', Responds ''General'', Responds ''Spanish''])))
     = ''unknown''
   \<and> calls (snd (textBranch scripted (TextContent ''hola'')
       (script [Rejects ''503'', Responds ''General'', Responds ''Spanish''])))
     = [LanguageRequest ''hola'', SubjectRequest ''hola'', LanguageRequest ''hola'']
   \<and> calls (snd (audioBranch scripted (TextContent ''hola'')
       (script [Rejects ''503'', Responds ''General'', Responds ''Spanish''])))
     = [LanguageRequest ''hola'', SubjectRequest ''hola'']"
  by code_simp

section \<open>Blank content\<close>

lemma lowerChar_ws: "isWhiteSpace c \<Longrightarrow> lowerChar c = c"
  by (auto simp add: isWhiteSpace_def lowerChar_def)

lemma toLowerCase_blank: "\<forall>c \<in> set t. isWhiteSpace c \<Longrightarrow> toLowerCase t = t"
  by (induction t) (simp_all add: toLowerCase_def lowerChar_ws)

lemma includes_js_subset: "includes_js t kw \<Longrightarrow> set kw \<subseteq> set t"
proof (induction t)
  case Nil
  then show ?case by simp
next
  case (Cons c cs)
  then show ?case using set_mono_prefix [of kw "c # cs"] by auto
qed

lemma keyword_not_in_blank:
  assumes "\<forall>c \<in> set t. isWhiteSpace c" and "(subject, keywords) \<in> set keywordMap"
    and "kw \<in> set keywords"
  shows "\<not> includes_js t kw"
proof
  assume "includes_js t kw"
  then have sub: "set kw \<subseteq> set t" by (rule includes_js_subset)
  from keywords_visible assms(2,3)
  have "case kw of [] \<Rightarrow> False | c # _ \<Rightarrow> \<not> isWhiteSpace c"
    by (auto simp add: list_all_iff)
  then obtain c where "c \<in> set kw" "\<not> isWhiteSpace c"
    by (cases kw) auto
  with sub assms(1) show False by auto
qed

lemma blank_scores:
  assumes "\<forall>c \<in> set t. isWhiteSpace c"
  shows "\<forall>e \<in> set (scores (toLowerCase t)). snd e = 0"
proof -
  have "filter (\<lambda>kw. kw \<noteq> [] \<and> includes_js t kw) kws = []"
    if "(subject, kws) \<in> set keywordMap" for subject kws
    using keyword_not_in_blank [OF assms that] by (simp add: filter_empty_conv)
  then show ?thesis
    by (auto simp add: scores_def toLowerCase_blank [OF assms])
qed

lemma blank_heuristicScore:
  assumes "\<forall>c \<in> set t. isWhiteSpace c"
  shows "heuristicScore (toLowerCase t) = 0"
  using blank_scores [OF assms] heuristicScore_in_scores [of "toLowerCase t"] by auto

text \<open>
  C9 as stated: on an empty content both detectors return their sentinels. With a service
  that answers, they return the answer.
\<close>

theorem blank_content_counterexample:
  "fst (detectLanguage scripted (TextContent []) (script [Responds ''English''])) = ''English''
   \<and> fst (detectSubject scripted (TextContent []) (script [Responds ''Language''])) = Some ''Language''"
  by code_simp

text \<open>
  C9, amended: on a blank or empty content neither detector raises: an error in the
  \<^verbatim>\<open>try\<close> block becomes the sentinel. \<^verbatim>\<open>detectLanguage\<close> returns the cleaned answer of
  the service, and \<^verbatim>\<open>"unknown"\<close> when the call fails; \<^verbatim>\<open>detectSubject\<close> returns the
  label that the answer is normalised to, and \<^verbatim>\<open>"General"\<close> when the call is rejected or
  the answer gives no label (every heuristic score of a blank text is 0).
\<close>

theorem blank_content:
  assumes "\<forall>c \<in> set t. isWhiteSpace c"
  shows "(\<forall>e. fst (detectLanguage_try svc (TextContent t) s) = Inl e \<longrightarrow>
            fst (detectLanguage svc (TextContent t) s) = ''unknown'')
       \<and> (\<forall>e. fst (detectSubject_try svc (TextContent t) s) = Inl e \<longrightarrow>
            fst (detectSubject svc (TextContent t) s) = Some ''General'')
       \<and> fst (detectLanguage svc (TextContent t) s) =
           (case fst (svc (LanguageRequest (substring t 0 500)) (world s)) of
              Responds r \<Rightarrow> trim (splitFirst (CHR ''.'') (splitFirst (CHR 0x0A) (trim r)))
            | _ \<Rightarrow> ''unknown'')
       \<and> fst (detectSubject svc (TextContent t) s) =
           (case fst (svc (SubjectRequest (snippet (TextContent t))) (world s)) of
              Rejects e \<Rightarrow> Some ''General''
            | r \<Rightarrow> (case modelMapped (normalizeDetected (raw r)) of
                      Some m \<Rightarrow> Some m
                    | None \<Rightarrow> Some ''General''))"
proof -
  have z: "heuristicScore (toLowerCase t) = 0" using assms by (rule blank_heuristicScore)
  have d: "decision (toLowerCase t) cleaned =
      (case modelMapped cleaned of Some m \<Rightarrow> Some m | None \<Rightarrow> Some ''General'')" for cleaned
    by (simp add: decision_def z split: option.splits)
  have l: "fst (detectLanguage svc (TextContent t) s) = ''unknown''"
    if "fst (detectLanguage_try svc (TextContent t) s) = Inl e" for e
    using that by (cases "detectLanguage_try svc (TextContent t) s") (auto simp add: detectLanguage_def)
  have sj: "fst (detectSubject svc (TextContent t) s) = Some ''General''"
    if "fst (detectSubject_try svc (TextContent t) s) = Inl e" for e
    using that by (cases "detectSubject_try svc (TextContent t) s") (auto simp add: detectSubject_def)
  have sv: "fst (detectSubject svc (TextContent t) s) =
           (case fst (svc (SubjectRequest (snippet (TextContent t))) (world s)) of
              Rejects e \<Rightarrow> Some ''General''
            | r \<Rightarrow> (case modelMapped (normalizeDetected (raw r)) of
                      Some m \<Rightarrow> Some m
                    | None \<Rightarrow> Some ''General''))"
    by (simp add: detectSubject_text d raw_def normalizeDetected_def modelMapped_def
        split: reply.splits)
  from l sj sv detectLanguage_text [of svc t s] show ?thesis by blast
qed

theorem blank_content_witness:
  "isWhiteSpace (CHR 0x20)
   \<and> fst (detectLanguage scripted (TextContent '' '') (script [])) = ''unknown''
   \<and> fst (detectSubject scripted (TextContent '' '') (script [Responds ''Language'']))
       = Some ''Language''"
proof -
  have h: "\<forall>c \<in> set '' ''. isWhiteSpace c" by (simp add: isWhiteSpace_def)
  have l: "fst (scripted (LanguageRequest (substring '' '' 0 500)) (world (script [])))
      = Rejects ''no reply''"
    by (simp add: scripted_def script_def)
  have r: "fst (scripted (SubjectRequest (snippet (TextContent '' '')))
      (world (script [Responds ''Language'']))) = Responds ''Language''"
    by (simp add: scripted_def script_def)
  have m: "modelMapped (normalizeDetected (raw (Responds ''Language''))) = Some ''Language''"
    by code_simp
  from blank_content [OF h, of scripted "script []", THEN conjunct2, THEN conjunct2, THEN conjunct1]
  have a: "fst (detectLanguage scripted (TextContent '' '') (script [])) = ''unknown''"
    by (simp add: l)
  from blank_content [OF h, of scripted "script [Responds ''Language'']",
      THEN conjunct2, THEN conjunct2, THEN conjunct2]
  have b: "fst (detectSubject scripted (TextContent '' '') (script [Responds ''Language'']))
       = Some ''Language''"
    by (simp add: r m)
  have w: "isWhiteSpace (CHR 0x20)" by (simp add: isWhiteSpace_def)
  from w a b show ?thesis by (intro conjI)
qed

section \<open>Keywords written in lower case\<close>

text \<open>
  For every label but \<^verbatim>\<open>"Programming"\<close> the keywords are written in lower case, and the
  score computed by the program is the case-insensitive count of the specification.
\<close>

lemma keywords_lower_case:
  "list_all (\<lambda>(subject, keywords).
      subject = ''Programming'' \<or> list_all (\<lambda>kw. kw \<noteq> [] \<and> toLowerCase kw = kw) keywords)
    keywordMap"
  by code_simp

lemma score_case_insensitive:
  assumes "subject \<noteq> ''Programming''"
  shows "modelScore (toLowerCase text) subject = spec_score text subject"
proof (cases "map_of keywordMap subject")
  case None
  then show ?thesis by (simp add: modelScore_def spec_score_def map_of_scores)
next
  case (Some kws)
  then have "(subject, kws) \<in> set keywordMap" by (rule map_of_SomeD)
  with keywords_lower_case assms have "\<forall>kw \<in> set kws. kw \<noteq> [] \<and> toLowerCase kw = kw"
    by (auto simp add: list_all_iff)
  then have "filter (\<lambda>kw. kw \<noteq> [] \<and> includes_js (toLowerCase text) kw) kws
      = filter (\<lambda>kw. includes_js (toLowerCase text) (toLowerCase kw)) kws"
    by (intro filter_cong) auto
  with Some show ?thesis by (simp add: modelScore_def spec_score_def map_of_scores)
qed

section \<open>Keywords written with capitals\<close>

text \<open>
  C3: the score of a label is the number of its keywords that occur in the text as
  substrings, case-insensitively. The text \<^verbatim>\<open>REST API\<close> contains the keywords \<^verbatim>\<open>REST\<close>
  and \<^verbatim>\<open>API\<close> of \<^verbatim>\<open>"Programming"\<close>, even in the same case, so that count is 2; the
  program compares the lower-cased text with the keywords as they are written and scores
  0, and with no label from the model the result is \<^verbatim>\<open>"General"\<close>.
\<close>

theorem uppercase_keywords_never_match:
  "includes_js ''REST API'' ''REST'' \<and> includes_js ''REST API'' ''API''
   \<and> spec_score ''REST API'' ''Programming'' = 2
   \<and> modelScore (toLowerCase ''REST API'') ''Programming'' = 0
   \<and> heuristicScore (toLowerCase ''REST API'') = 0
   \<and> fst (detectSubject scripted (TextContent ''REST API'') (script [Responds ''no idea'']))
       = Some ''General''"
  by code_simp

end
